theory Spec2Isabelle
  imports Main "HOL-Library.Word"
begin

section \<open>The Linux plugin of biometric\_storage\<close>

text \<open>
  The development embeds \<^verbatim>\<open>linux/biometric_storage_plugin.cc\<close>: the dispatcher
  \<^verbatim>\<open>biometric_storage_plugin_handle_method_call\<close>, \<^verbatim>\<open>handleInit\<close>,
  \<^verbatim>\<open>_handle_error\<close> and the three completion callbacks. The plugin is written against
  two libraries that are not part of the repository: the Flutter Linux embedder
  (\<^verbatim>\<open>FlValue\<close>, \<^verbatim>\<open>FlMethodCall\<close>, \<^verbatim>\<open>FlMethodResponse\<close>) and libsecret
  (\<^verbatim>\<open>secret_password_store/lookup/clear\<close>). Their functions are modelled by what their
  public interface says; every such definition is marked as external below.
\<close>

subsection \<open>FlValue (external: flutter\_linux)\<close>

text \<open>
  The kinds of value the standard method codec transports. A \<^verbatim>\<open>FlValue*\<close> of the
  source is an \<open>FlValue option\<close>, with \<open>None\<close> for \<^verbatim>\<open>nullptr\<close>. A map keeps its
  entries in insertion order; a float is carried as its 64 bits. String payloads are C
  strings.
\<close>

datatype FlValueType =
    FL_VALUE_TYPE_NULL
  | FL_VALUE_TYPE_BOOL
  | FL_VALUE_TYPE_INT
  | FL_VALUE_TYPE_FLOAT
  | FL_VALUE_TYPE_STRING
  | FL_VALUE_TYPE_UINT8_LIST
  | FL_VALUE_TYPE_INT32_LIST
  | FL_VALUE_TYPE_INT64_LIST
  | FL_VALUE_TYPE_FLOAT_LIST
  | FL_VALUE_TYPE_LIST
  | FL_VALUE_TYPE_MAP

datatype FlValue =
    FlNull
  | FlBool bool
  | FlInt "64 word"
  | FlFloat "64 word"
  | FlString string
  | FlUint8List "8 word list"
  | FlInt32List "32 word list"
  | FlInt64List "64 word list"
  | FlFloatList "64 word list"
  | FlList "FlValue list"
  | FlMap "(FlValue \<times> FlValue) list"

text \<open>
  \<^verbatim>\<open>fl_value_get_type\<close>: the type tag; on \<^verbatim>\<open>nullptr\<close> the library's precondition check
  (\<^verbatim>\<open>g_return_val_if_fail\<close>) gives \<^verbatim>\<open>FL_VALUE_TYPE_NULL\<close>.
\<close>

definition fl_value_get_type :: "FlValue option \<Rightarrow> FlValueType" where
  "fl_value_get_type v =
     (case v of
        None \<Rightarrow> FL_VALUE_TYPE_NULL
      | Some FlNull \<Rightarrow> FL_VALUE_TYPE_NULL
      | Some (FlBool b) \<Rightarrow> FL_VALUE_TYPE_BOOL
      | Some (FlInt i) \<Rightarrow> FL_VALUE_TYPE_INT
      | Some (FlFloat d) \<Rightarrow> FL_VALUE_TYPE_FLOAT
      | Some (FlString s) \<Rightarrow> FL_VALUE_TYPE_STRING
      | Some (FlUint8List bs) \<Rightarrow> FL_VALUE_TYPE_UINT8_LIST
      | Some (FlInt32List ws) \<Rightarrow> FL_VALUE_TYPE_INT32_LIST
      | Some (FlInt64List ws) \<Rightarrow> FL_VALUE_TYPE_INT64_LIST
      | Some (FlFloatList ds) \<Rightarrow> FL_VALUE_TYPE_FLOAT_LIST
      | Some (FlList vs) \<Rightarrow> FL_VALUE_TYPE_LIST
      | Some (FlMap kvs) \<Rightarrow> FL_VALUE_TYPE_MAP)"

text \<open>
  \<^verbatim>\<open>fl_value_lookup_string\<close>: the value of the first entry whose key is the string
  \<open>key\<close>, or \<^verbatim>\<open>nullptr\<close> when there is none. Called on something that is not a map,
  the precondition check returns \<^verbatim>\<open>nullptr\<close>.
\<close>

definition fl_value_lookup_string :: "FlValue option \<Rightarrow> string \<Rightarrow> FlValue option" where
  "fl_value_lookup_string self key =
     (case self of
        Some (FlMap kvs) \<Rightarrow> map_of kvs (FlString key)
      | _ \<Rightarrow> None)"

text \<open>
  \<^verbatim>\<open>fl_value_get_bool\<close> and \<^verbatim>\<open>fl_value_get_string\<close>: the payload; called on
  \<^verbatim>\<open>nullptr\<close> or on a value of another type, the precondition check returns
  \<^verbatim>\<open>FALSE\<close>, respectively \<^verbatim>\<open>nullptr\<close>.
\<close>

definition fl_value_get_bool :: "FlValue option \<Rightarrow> bool" where
  "fl_value_get_bool self = (case self of Some (FlBool b) \<Rightarrow> b | _ \<Rightarrow> False)"

definition fl_value_get_string :: "FlValue option \<Rightarrow> string option" where
  "fl_value_get_string self = (case self of Some (FlString s) \<Rightarrow> Some s | _ \<Rightarrow> None)"

text \<open>
  \<^verbatim>\<open>fl_value_set_string_take\<close> on a map: replaces the value of an existing key,
  appends a new entry otherwise.
\<close>

fun fl_value_set :: "(FlValue \<times> FlValue) list \<Rightarrow> FlValue \<Rightarrow> FlValue \<Rightarrow> (FlValue \<times> FlValue) list" where
  "fl_value_set [] k v = [(k, v)]"
| "fl_value_set ((k', v') # kvs) k v =
     (if k' = k then (k, v) # kvs else (k', v') # fl_value_set kvs k v)"

definition fl_value_set_string_take :: "FlValue \<Rightarrow> string \<Rightarrow> FlValue \<Rightarrow> FlValue" where
  "fl_value_set_string_take self key v =
     (case self of FlMap kvs \<Rightarrow> FlMap (fl_value_set kvs (FlString key) v) | _ \<Rightarrow> self)"

subsection \<open>Method calls and responses (external: flutter\_linux)\<close>

text \<open>
  An \<^verbatim>\<open>FlMethodCall\<close> object: \<open>call_id\<close> is its identity (the pointer, the call
  handle of the specification), the other two fields are what
  \<^verbatim>\<open>fl_method_call_get_name\<close> and \<^verbatim>\<open>fl_method_call_get_args\<close> return.
\<close>

type_synonym handle = nat

record FlMethodCall =
  call_id :: handle
  call_name :: string
  call_args :: FlValue

datatype FlMethodResponse =
    FlMethodSuccessResponse FlValue
  | FlMethodErrorResponse string string "FlValue option"
  | FlMethodNotImplementedResponse

subsection \<open>Backend errors and results (external: GLib, libsecret)\<close>

text \<open>
  A \<^verbatim>\<open>GError\<close>: the domain is a quark, held here as the string it is interned for
  (\<^verbatim>\<open>g_quark_to_string\<close>); the code is a \<^verbatim>\<open>gint\<close>. A \<^verbatim>\<open>GAsyncResult\<close> holds what
  the three \<^verbatim>\<open>_finish\<close> functions read out of it.
\<close>

record GError =
  domain :: string
  code :: "32 word"
  message :: string

record GAsyncResult =
  res_error :: "GError option"
  res_password :: "string option"
  res_removed :: bool

datatype secret_request =
    SecretStore string string string
  | SecretLookup string
  | SecretClear string

datatype callback = CbPasswordStored | CbPasswordCleared | CbPasswordLookup

record async_call =
  request :: secret_request
  ready :: callback
  user_data :: handle

subsection \<open>The state the plugin acts on\<close>

text \<open>
  \<open>responses\<close>: every \<^verbatim>\<open>fl_method_call_respond\<close>, in order;
  \<open>retained\<close>: the references taken with \<^verbatim>\<open>g_object_ref\<close> and not yet dropped;
  \<open>pending\<close>: the backend calls issued and not yet completed;
  \<open>warnings\<close>: the \<^verbatim>\<open>g_warning\<close> log;
  \<open>keyring\<close>: the secrets of the backend, by the value of the attribute \<^verbatim>\<open>name\<close>.
\<close>

record world =
  responses :: "(handle \<times> FlMethodResponse) list"
  retained :: "handle list"
  pending :: "async_call list"
  warnings :: "string list"
  keyring :: "string \<rightharpoonup> string"

definition fl_method_call_respond :: "handle \<Rightarrow> FlMethodResponse \<Rightarrow> world \<Rightarrow> world" where
  "fl_method_call_respond h r w = w\<lparr>responses := responses w @ [(h, r)]\<rparr>"

definition g_object_ref :: "handle \<Rightarrow> world \<Rightarrow> world" where
  "g_object_ref h w = w\<lparr>retained := h # retained w\<rparr>"

definition g_object_unref :: "handle \<Rightarrow> world \<Rightarrow> world" where
  "g_object_unref h w = w\<lparr>retained := remove1 h (retained w)\<rparr>"

definition g_warning :: "string \<Rightarrow> world \<Rightarrow> world" where
  "g_warning msg w = w\<lparr>warnings := warnings w @ [msg]\<rparr>"

subsection \<open>Formatting (external: GLib on glibc)\<close>

text \<open>
  The two conversions \<^verbatim>\<open>g_strdup_printf\<close> is used with. \<^verbatim>\<open>%s\<close> of a null pointer
  prints \<^verbatim>\<open>(null)\<close> on glibc; \<^verbatim>\<open>%d\<close> prints a \<^verbatim>\<open>gint\<close> in decimal, with a
  minus sign when it is negative.
\<close>

definition fmt_s :: "string option \<Rightarrow> string" where
  "fmt_s p = (case p of None \<Rightarrow> ''(null)'' | Some s \<Rightarrow> s)"

fun decimal :: "nat \<Rightarrow> string" where
  "decimal n =
     (if n < 10 then [''0123456789'' ! n]
      else decimal (n div 10) @ [''0123456789'' ! (n mod 10)])"

declare decimal.simps [simp del]

definition fmt_d :: "32 word \<Rightarrow> string" where
  "fmt_d c = (if sint c < 0 then CHR ''-'' # decimal (nat (- sint c)) else decimal (nat (sint c)))"

subsection \<open>The secret service (external: libsecret)\<close>

text \<open>
  The three asynchronous entry points. Each queues one call whose completion will run the
  given callback with the given user data. \<^verbatim>\<open>secret_password_store\<close> checks its
  arguments first (\<^verbatim>\<open>g_return_if_fail (password != NULL)\<close>): with a null password it
  returns at once, nothing is queued and the callback is never run. The label and the
  attribute value the plugin passes come out of \<^verbatim>\<open>g_strdup_printf\<close> and are never
  null.
\<close>

definition secret_password_store ::
  "string \<Rightarrow> string option \<Rightarrow> callback \<Rightarrow> handle \<Rightarrow> string \<Rightarrow> world \<Rightarrow> world" where
  "secret_password_store label password cb ud attr_name w =
     (case password of
        None \<Rightarrow> w
      | Some p \<Rightarrow>
          w\<lparr>pending := pending w @
             [\<lparr>request = SecretStore label p attr_name, ready = cb, user_data = ud\<rparr>]\<rparr>)"

definition secret_password_lookup :: "callback \<Rightarrow> handle \<Rightarrow> string \<Rightarrow> world \<Rightarrow> world" where
  "secret_password_lookup cb ud attr_name w =
     w\<lparr>pending := pending w @ [\<lparr>request = SecretLookup attr_name, ready = cb, user_data = ud\<rparr>]\<rparr>"

definition secret_password_clear :: "callback \<Rightarrow> handle \<Rightarrow> string \<Rightarrow> world \<Rightarrow> world" where
  "secret_password_clear cb ud attr_name w =
     w\<lparr>pending := pending w @ [\<lparr>request = SecretClear attr_name, ready = cb, user_data = ud\<rparr>]\<rparr>"

definition secret_password_store_finish :: "GAsyncResult \<Rightarrow> GError option" where
  "secret_password_store_finish result = res_error result"

definition secret_password_clear_finish :: "GAsyncResult \<Rightarrow> bool \<times> GError option" where
  "secret_password_clear_finish result = (res_removed result, res_error result)"

definition secret_password_lookup_finish :: "GAsyncResult \<Rightarrow> string option \<times> GError option" where
  "secret_password_lookup_finish result = (res_password result, res_error result)"

text \<open>
  Modelled from the spec: the secret-storage backend itself, which is not part of the
  repository. The specification gives its interface as: store(schema, attributes, secret)
  to ok or error; lookup(schema, attributes) to the secret, not-found, or error;
  clear(schema, attributes) to removed (a boolean) or error. Whether a call fails is the
  backend's affair and is an input here (\<open>failure\<close>); a failed call leaves the keyring as
  it was.
\<close>

definition secret_service :: "secret_request \<Rightarrow> GError option \<Rightarrow> (string \<rightharpoonup> string) \<Rightarrow> GAsyncResult \<times> (string \<rightharpoonup> string)" where
  "secret_service rq failure kr =
     (case failure of
        Some e \<Rightarrow> (\<lparr>res_error = Some e, res_password = None, res_removed = False\<rparr>, kr)
      | None \<Rightarrow>
          (case rq of
             SecretStore label password attr_name \<Rightarrow>
               (\<lparr>res_error = None, res_password = None, res_removed = False\<rparr>,
                kr(attr_name \<mapsto> password))
           | SecretLookup attr_name \<Rightarrow>
               (\<lparr>res_error = None, res_password = kr attr_name, res_removed = False\<rparr>, kr)
           | SecretClear attr_name \<Rightarrow>
               (\<lparr>res_error = None, res_password = None, res_removed = (kr attr_name \<noteq> None)\<rparr>,
                kr(attr_name := None))))"

section \<open>The plugin\<close>

definition kBadArgumentsError :: string where
  "kBadArgumentsError = ''Bad Arguments''"

definition kSecurityAccessError :: string where
  "kSecurityAccessError = ''Security Access Error''"

definition kMethodRead :: string where
  "kMethodRead = ''read''"

definition kMethodWrite :: string where
  "kMethodWrite = ''write''"

definition kMethodDelete :: string where
  "kMethodDelete = ''delete''"

definition kNamePrefix :: string where
  "kNamePrefix = ''design.codeux.authpass''"

text \<open>
  The macro \<^verbatim>\<open>METHOD_PARAM_NAME\<close>:
  \<^verbatim>\<open>g_strdup_printf("%s.%s", kNamePrefix, fl_value_get_string(fl_value_lookup_string(args, "name")))\<close>.
\<close>

definition METHOD_PARAM_NAME :: "FlValue \<Rightarrow> string" where
  "METHOD_PARAM_NAME args =
     fmt_s (Some kNamePrefix) @ ''.'' @
     fmt_s (fl_value_get_string (fl_value_lookup_string (Some args) ''name''))"

text \<open>
  \<^verbatim>\<open>_handle_error\<close>: formats the message, logs it, and builds the error response with
  the details map.
\<close>

definition handle_error :: "string \<Rightarrow> GError \<Rightarrow> world \<Rightarrow> FlMethodResponse \<times> world" where
  "handle_error msg error w =
     (let dom = domain error;
          error_message =
            fmt_s (Some msg) @ '': '' @ fmt_s (Some (message error)) @ '' ('' @
            fmt_d (code error) @ '') ('' @ fmt_s (Some dom) @ '')'';
          w1 = g_warning error_message w;
          d0 = FlMap [];
          d1 = fl_value_set_string_take d0 ''domain'' (FlString dom);
          d2 = fl_value_set_string_take d1 ''code'' (FlInt (scast (code error)));
          error_details = fl_value_set_string_take d2 ''message'' (FlString (message error))
      in (FlMethodErrorResponse kSecurityAccessError error_message (Some error_details), w1))"

definition handleInit :: "FlValue \<Rightarrow> FlMethodResponse" where
  "handleInit args =
     (let options = fl_value_lookup_string (Some args) ''options'' in
      if fl_value_get_type options \<noteq> FL_VALUE_TYPE_MAP then
        FlMethodErrorResponse kBadArgumentsError ''Argument map missing or malformed'' None
      else
        let authRequired = fl_value_lookup_string options ''authenticationRequired'' in
        if fl_value_get_bool authRequired then
          FlMethodErrorResponse kBadArgumentsError
            ''Linux plugin only supports non-authenticated secure storage'' None
        else FlMethodSuccessResponse (FlBool True))"

definition on_password_stored :: "GAsyncResult \<Rightarrow> handle \<Rightarrow> world \<Rightarrow> world" where
  "on_password_stored result method_call w =
     (let (response, w1) =
            (case secret_password_store_finish result of
               Some error \<Rightarrow> handle_error ''Failed to store secret'' error w
             | None \<Rightarrow> (FlMethodSuccessResponse (FlBool True), w))
      in g_object_unref method_call (fl_method_call_respond method_call response w1))"

definition on_password_cleared :: "GAsyncResult \<Rightarrow> handle \<Rightarrow> world \<Rightarrow> world" where
  "on_password_cleared result method_call w =
     (let (removed, err) = secret_password_clear_finish result;
          (response, w1) =
            (case err of
               Some error \<Rightarrow> handle_error ''Failed to delete secret'' error w
             | None \<Rightarrow> (FlMethodSuccessResponse (FlBool removed), w))
      in g_object_unref method_call (fl_method_call_respond method_call response w1))"

definition on_password_lookup :: "GAsyncResult \<Rightarrow> handle \<Rightarrow> world \<Rightarrow> world" where
  "on_password_lookup result method_call w =
     (let (password, err) = secret_password_lookup_finish result;
          (response, w1) =
            (case err of
               Some error \<Rightarrow> handle_error ''Failed to lookup secret'' error w
             | None \<Rightarrow>
                 (case password of
                    None \<Rightarrow>
                      (FlMethodSuccessResponse FlNull,
                       g_warning ''Failed to lookup password (not found).'' w)
                  | Some p \<Rightarrow> (FlMethodSuccessResponse (FlString p), w)))
      in g_object_unref method_call (fl_method_call_respond method_call response w1))"

definition biometric_storage_plugin_handle_method_call :: "FlMethodCall \<Rightarrow> world \<Rightarrow> world" where
  "biometric_storage_plugin_handle_method_call method_call w =
     (let method = call_name method_call;
          args = call_args method_call
      in
      if method = ''canAuthenticate'' then
        fl_method_call_respond (call_id method_call)
          (FlMethodSuccessResponse (FlString ''ErrorHwUnavailable'')) w
      else if method = ''init'' then
        fl_method_call_respond (call_id method_call) (handleInit args) w
      else if method = kMethodWrite then
        let name = METHOD_PARAM_NAME args;
            content = fl_value_get_string (fl_value_lookup_string (Some args) ''content'')
        in secret_password_store name content CbPasswordStored (call_id method_call) name
             (g_object_ref (call_id method_call) w)
      else if method = kMethodRead then
        let name = METHOD_PARAM_NAME args
        in secret_password_lookup CbPasswordLookup (call_id method_call) name
             (g_object_ref (call_id method_call) w)
      else if method = kMethodDelete then
        let name = METHOD_PARAM_NAME args
        in secret_password_clear CbPasswordCleared (call_id method_call) name
             (g_object_ref (call_id method_call) w)
      else
        fl_method_call_respond (call_id method_call) FlMethodNotImplementedResponse w)"

section \<open>The main loop\<close>

text \<open>
  Everything runs on one loop. An event is either a method call arriving from the
  channel, or the backend completing the pending call at position \<open>i\<close>, failing with
  the given error or succeeding. Completion runs the backend operation on the keyring
  and then the callback the call was issued with.
\<close>

datatype event = MethodCall FlMethodCall | Completion nat "GError option"

definition run_callback :: "callback \<Rightarrow> GAsyncResult \<Rightarrow> handle \<Rightarrow> world \<Rightarrow> world" where
  "run_callback cb result ud w =
     (case cb of
        CbPasswordStored \<Rightarrow> on_password_stored result ud w
      | CbPasswordCleared \<Rightarrow> on_password_cleared result ud w
      | CbPasswordLookup \<Rightarrow> on_password_lookup result ud w)"

definition complete :: "nat \<Rightarrow> GError option \<Rightarrow> world \<Rightarrow> world" where
  "complete i failure w =
     (if i < length (pending w) then
        let c = pending w ! i;
            (result, kr) = secret_service (request c) failure (keyring w)
        in run_callback (ready c) result (user_data c)
             (w\<lparr>pending := take i (pending w) @ drop (Suc i) (pending w), keyring := kr\<rparr>)
      else w)"

fun step :: "world \<Rightarrow> event \<Rightarrow> world" where
  "step w (MethodCall mc) = biometric_storage_plugin_handle_method_call mc w"
| "step w (Completion i failure) = complete i failure w"

definition run :: "event list \<Rightarrow> world \<Rightarrow> world" where
  "run evs w = foldl step w evs"

definition idle :: world where
  "idle = \<lparr>responses = [], retained = [], pending = [], warnings = [], keyring = Map.empty\<rparr>"

definition responses_to :: "handle \<Rightarrow> world \<Rightarrow> FlMethodResponse list" where
  "responses_to h w = map snd (filter (\<lambda>p. fst p = h) (responses w))"

definition pending_for :: "handle \<Rightarrow> world \<Rightarrow> async_call list" where
  "pending_for h w = filter (\<lambda>c. user_data c = h) (pending w)"

text \<open>
  A write whose \<^verbatim>\<open>content\<close> argument is missing or not a string: the plugin passes a
  null password to \<^verbatim>\<open>secret_password_store\<close>, which drops the call.
\<close>

definition dropped :: "FlMethodCall \<Rightarrow> bool" where
  "dropped mc =
     (call_name mc = kMethodWrite \<and>
      fl_value_get_string (fl_value_lookup_string (Some (call_args mc)) ''content'') = None)"

fun calls_of :: "handle \<Rightarrow> event list \<Rightarrow> nat" where
  "calls_of h [] = 0"
| "calls_of h (MethodCall mc # evs) =
     (if call_id mc = h then Suc (calls_of h evs) else calls_of h evs)"
| "calls_of h (Completion i failure # evs) = calls_of h evs"

fun undropped :: "event list \<Rightarrow> bool" where
  "undropped [] = True"
| "undropped (MethodCall mc # evs) = (\<not> dropped mc \<and> undropped evs)"
| "undropped (Completion i failure # evs) = undropped evs"

definition accounted :: "handle \<Rightarrow> world \<Rightarrow> nat" where
  "accounted h w = length (responses_to h w) + length (pending_for h w)"

subsection \<open>The arguments and errors of the examples\<close>

definition vault1 :: FlValue where
  "vault1 = FlMap [(FlString ''name'', FlString ''vault1'')]"

definition vault1_secret :: FlValue where
  "vault1_secret =
     FlMap [(FlString ''name'', FlString ''vault1''),
            (FlString ''content'', FlString ''secret-xyz'')]"

definition keyring_locked :: GError where
  "keyring_locked = \<lparr>domain = ''secret-error'', code = 2, message = ''locked''\<rparr>"

definition service_gone :: GError where
  "service_gone = \<lparr>domain = ''g-io-error-quark'', code = - 1, message = ''gone''\<rparr>"

section \<open>Basic facts\<close>

lemma run_Nil [simp]: "run [] w = w"
  by (simp add: run_def)

lemma run_Cons [simp]: "run (ev # evs) w = run evs (step w ev)"
  by (simp add: run_def)

lemma handle_error_eq:
  "handle_error ctx e w =
     (FlMethodErrorResponse ''Security Access Error''
        (ctx @ '': '' @ message e @ '' ('' @ fmt_d (code e) @ '') ('' @ domain e @ '')'')
        (Some (FlMap [(FlString ''domain'', FlString (domain e)),
                      (FlString ''code'', FlInt (scast (code e))),
                      (FlString ''message'', FlString (message e))])),
      w\<lparr>warnings := warnings w @
         [ctx @ '': '' @ message e @ '' ('' @ fmt_d (code e) @ '') ('' @ domain e @ '')'']\<rparr>)"
  by (simp add: handle_error_def Let_def fmt_s_def fl_value_set_string_take_def
      kSecurityAccessError_def g_warning_def)

text \<open>The unfolding used to run the model on concrete calls.\<close>

lemmas plugin_eval =
  biometric_storage_plugin_handle_method_call_def kMethodWrite_def kMethodRead_def
  kMethodDelete_def METHOD_PARAM_NAME_def fmt_s_def kNamePrefix_def fl_value_get_string_def
  fl_value_lookup_string_def secret_password_store_def secret_password_lookup_def
  secret_password_clear_def g_object_ref_def idle_def complete_def secret_service_def
  run_callback_def on_password_stored_def on_password_lookup_def on_password_cleared_def
  secret_password_store_finish_def secret_password_lookup_finish_def
  secret_password_clear_finish_def handle_error_eq g_object_unref_def g_warning_def
  fl_method_call_respond_def handleInit_def fl_value_get_type_def fl_value_get_bool_def
  kBadArgumentsError_def Let_def

subsection \<open>The dispatcher, branch by branch\<close>

lemma handle_write:
  assumes "call_name mc = ''write''"
  shows "biometric_storage_plugin_handle_method_call mc w =
    secret_password_store (METHOD_PARAM_NAME (call_args mc))
      (fl_value_get_string (fl_value_lookup_string (Some (call_args mc)) ''content''))
      CbPasswordStored (call_id mc) (METHOD_PARAM_NAME (call_args mc))
      (g_object_ref (call_id mc) w)"
  using assms by (simp add: biometric_storage_plugin_handle_method_call_def kMethodWrite_def Let_def)

lemma handle_read:
  assumes "call_name mc = ''read''"
  shows "biometric_storage_plugin_handle_method_call mc w =
    secret_password_lookup CbPasswordLookup (call_id mc) (METHOD_PARAM_NAME (call_args mc))
      (g_object_ref (call_id mc) w)"
  using assms
  by (simp add: biometric_storage_plugin_handle_method_call_def kMethodWrite_def kMethodRead_def
      Let_def)

lemma handle_delete:
  assumes "call_name mc = ''delete''"
  shows "biometric_storage_plugin_handle_method_call mc w =
    secret_password_clear CbPasswordCleared (call_id mc) (METHOD_PARAM_NAME (call_args mc))
      (g_object_ref (call_id mc) w)"
  using assms
  by (simp add: biometric_storage_plugin_handle_method_call_def kMethodWrite_def kMethodRead_def
      kMethodDelete_def Let_def)

lemma METHOD_PARAM_NAME_string:
  assumes "fl_value_lookup_string (Some args) ''name'' = Some (FlString n)"
  shows "METHOD_PARAM_NAME args = ''design.codeux.authpass'' @ ''.'' @ n"
  using assms
  by (simp add: METHOD_PARAM_NAME_def fmt_s_def kNamePrefix_def fl_value_get_string_def)

lemma pending_write:
  assumes "call_name mc = ''write''"
    and "fl_value_lookup_string (Some (call_args mc)) ''name'' = Some (FlString n)"
    and "fl_value_lookup_string (Some (call_args mc)) ''content'' = Some (FlString c)"
  shows "pending (biometric_storage_plugin_handle_method_call mc w) =
      pending w @ [\<lparr>request = SecretStore (''design.codeux.authpass'' @ ''.'' @ n) c
                              (''design.codeux.authpass'' @ ''.'' @ n),
                  ready = CbPasswordStored, user_data = call_id mc\<rparr>]"
  using assms METHOD_PARAM_NAME_string [OF assms(2)]
  by (simp add: handle_write secret_password_store_def g_object_ref_def fl_value_get_string_def)

lemma pending_read:
  assumes "call_name mc = ''read''"
    and "fl_value_lookup_string (Some (call_args mc)) ''name'' = Some (FlString n)"
  shows "pending (biometric_storage_plugin_handle_method_call mc w) =
      pending w @ [\<lparr>request = SecretLookup (''design.codeux.authpass'' @ ''.'' @ n),
                  ready = CbPasswordLookup, user_data = call_id mc\<rparr>]"
  using assms METHOD_PARAM_NAME_string [OF assms(2)]
  by (simp add: handle_read secret_password_lookup_def g_object_ref_def)

lemma pending_delete:
  assumes "call_name mc = ''delete''"
    and "fl_value_lookup_string (Some (call_args mc)) ''name'' = Some (FlString n)"
  shows "pending (biometric_storage_plugin_handle_method_call mc w) =
      pending w @ [\<lparr>request = SecretClear (''design.codeux.authpass'' @ ''.'' @ n),
                  ready = CbPasswordCleared, user_data = call_id mc\<rparr>]"
  using assms METHOD_PARAM_NAME_string [OF assms(2)]
  by (simp add: handle_delete secret_password_clear_def g_object_ref_def)

text \<open>
  The issuing path of write, read and delete sends no response, logs nothing and leaves
  the keyring alone; it takes one reference to the call.
\<close>

lemma frame_write:
  assumes "call_name mc = ''write''"
  shows "keyring (biometric_storage_plugin_handle_method_call mc w) = keyring w"
    and "responses (biometric_storage_plugin_handle_method_call mc w) = responses w"
    and "warnings (biometric_storage_plugin_handle_method_call mc w) = warnings w"
    and "retained (biometric_storage_plugin_handle_method_call mc w) = call_id mc # retained w"
  using assms
  by (simp_all add: handle_write secret_password_store_def g_object_ref_def split: option.split)

lemma frame_read:
  assumes "call_name mc = ''read''"
  shows "keyring (biometric_storage_plugin_handle_method_call mc w) = keyring w"
    and "responses (biometric_storage_plugin_handle_method_call mc w) = responses w"
    and "warnings (biometric_storage_plugin_handle_method_call mc w) = warnings w"
    and "retained (biometric_storage_plugin_handle_method_call mc w) = call_id mc # retained w"
  using assms
  by (simp_all add: handle_read secret_password_lookup_def g_object_ref_def)

lemma frame_delete:
  assumes "call_name mc = ''delete''"
  shows "keyring (biometric_storage_plugin_handle_method_call mc w) = keyring w"
    and "responses (biometric_storage_plugin_handle_method_call mc w) = responses w"
    and "warnings (biometric_storage_plugin_handle_method_call mc w) = warnings w"
    and "retained (biometric_storage_plugin_handle_method_call mc w) = call_id mc # retained w"
  using assms
  by (simp_all add: handle_delete secret_password_clear_def g_object_ref_def)

subsection \<open>Completion\<close>

lemma complete_last:
  assumes "pending w' = ps @ [c]"
  shows "complete (length ps) failure w' =
    run_callback (ready c) (fst (secret_service (request c) failure (keyring w'))) (user_data c)
      (w'\<lparr>pending := ps, keyring := snd (secret_service (request c) failure (keyring w'))\<rparr>)"
  using assms by (simp add: complete_def Let_def split_beta)

lemma complete_idle:
  assumes "\<not> i < length (pending w)"
  shows "complete i failure w = w"
  using assms by (simp add: complete_def)

lemma callback_responds_once:
  "\<exists>r. responses (run_callback cb result h w) = responses w @ [(h, r)]"
  by (cases cb)
     (auto simp: run_callback_def on_password_stored_def on_password_lookup_def
        on_password_cleared_def secret_password_store_finish_def
        secret_password_lookup_finish_def secret_password_clear_finish_def handle_error_eq
        g_object_unref_def g_warning_def fl_method_call_respond_def split: option.split)

lemma callback_frame:
  "pending (run_callback cb result h w) = pending w"
  "keyring (run_callback cb result h w) = keyring w"
  "retained (run_callback cb result h w) = remove1 h (retained w)"
  by (cases cb;
      simp add: run_callback_def on_password_stored_def on_password_lookup_def
        on_password_cleared_def secret_password_store_finish_def
        secret_password_lookup_finish_def secret_password_clear_finish_def handle_error_eq
        g_object_unref_def g_warning_def fl_method_call_respond_def split: option.split)+

text \<open>
  Completing a pending call sends exactly one response, to the call it was issued for,
  whatever the backend reports; the call leaves the queue and its reference is dropped.
\<close>

lemma complete_effect:
  assumes "i < length (pending w)"
  shows "\<exists>r. responses (complete i failure w) = responses w @ [(user_data (pending w ! i), r)]"
    and "pending (complete i failure w) = take i (pending w) @ drop (Suc i) (pending w)"
    and "retained (complete i failure w) = remove1 (user_data (pending w ! i)) (retained w)"
proof -
  obtain result kr
    where s: "secret_service (request (pending w ! i)) failure (keyring w) = (result, kr)"
    by (cases "secret_service (request (pending w ! i)) failure (keyring w)")
  let ?w' = "w\<lparr>pending := take i (pending w) @ drop (Suc i) (pending w), keyring := kr\<rparr>"
  have c: "complete i failure w =
      run_callback (ready (pending w ! i)) result (user_data (pending w ! i)) ?w'"
    using assms s by (simp add: complete_def Let_def)
  show "\<exists>r. responses (complete i failure w) = responses w @ [(user_data (pending w ! i), r)]"
    unfolding c
    using callback_responds_once [of "ready (pending w ! i)" result "user_data (pending w ! i)" ?w']
    by simp
  show "pending (complete i failure w) = take i (pending w) @ drop (Suc i) (pending w)"
    unfolding c by (simp add: callback_frame)
  show "retained (complete i failure w) = remove1 (user_data (pending w ! i)) (retained w)"
    unfolding c by (simp add: callback_frame)
qed

section \<open>One response per call\<close>

text \<open>
  For a call handle \<open>h\<close>, \<open>accounted h w\<close> counts the responses sent to \<open>h\<close> and
  the pending backend calls that will respond to \<open>h\<close>. Every call that is not dropped
  adds one to it, and a completion moves one unit from pending to responded. So along any
  run without dropped writes, a handle that was received once has either exactly one
  response and nothing pending, or no response yet and exactly one pending backend call.
\<close>

lemma accounted_call:
  assumes "\<not> dropped mc"
  shows "accounted h (biometric_storage_plugin_handle_method_call mc w) =
         accounted h w + (if call_id mc = h then 1 else 0)"
  using assms
  by (auto simp: accounted_def responses_to_def pending_for_def dropped_def
      biometric_storage_plugin_handle_method_call_def Let_def fl_method_call_respond_def
      secret_password_store_def secret_password_lookup_def secret_password_clear_def
      g_object_ref_def split: option.split)

lemma filter_without_nth:
  assumes "i < length xs"
  shows "length (filter P (take i xs @ drop (Suc i) xs)) + (if P (xs ! i) then 1 else 0) =
         length (filter P xs)"
proof -
  have "xs = take i xs @ xs ! i # drop (Suc i) xs"
    using assms by (rule id_take_nth_drop)
  then have "length (filter P xs) = length (filter P (take i xs @ xs ! i # drop (Suc i) xs))"
    by simp
  then show ?thesis by simp
qed

lemma accounted_complete:
  "accounted h (complete i failure w) = accounted h w"
proof (cases "i < length (pending w)")
  case False
  then show ?thesis by (simp add: complete_idle)
next
  case True
  from complete_effect(1) [OF True] obtain r
    where r: "responses (complete i failure w) = responses w @ [(user_data (pending w ! i), r)]"
    by blast
  have p: "pending (complete i failure w) = take i (pending w) @ drop (Suc i) (pending w)"
    using True by (rule complete_effect(2))
  from filter_without_nth [OF True, of "\<lambda>c. user_data c = h"]
  show ?thesis
    by (simp add: accounted_def responses_to_def pending_for_def r p split: if_splits)
qed

lemma accounted_run:
  assumes "undropped evs"
  shows "accounted h (run evs w) = accounted h w + calls_of h evs"
  using assms
proof (induction evs arbitrary: w)
  case Nil
  then show ?case by simp
next
  case (Cons ev evs)
  then show ?case
    by (cases ev) (simp_all add: accounted_call accounted_complete)
qed

lemma one_response_or_one_pending:
  assumes "undropped evs" and "calls_of h evs = 1"
  shows "length (responses_to h (run evs idle)) + length (pending_for h (run evs idle)) = 1"
  using accounted_run [OF assms(1), of h idle] assms(2)
  by (simp add: accounted_def responses_to_def pending_for_def idle_def)

text \<open>
  The references the plugin holds are those of the pending calls: one is taken when a
  backend call is issued, and the callback drops it after responding.
\<close>

lemma count_list_remove1:
  "count_list (remove1 x xs) y = count_list xs y - (if x = y \<and> x \<in> set xs then 1 else 0)"
  by (induction xs) auto

lemma retained_call:
  assumes "\<And>h. count_list (retained w) h = length (pending_for h w)" and "\<not> dropped mc"
  shows "count_list (retained (biometric_storage_plugin_handle_method_call mc w)) h =
         length (pending_for h (biometric_storage_plugin_handle_method_call mc w))"
  using assms(2) assms(1) [of h]
  by (auto simp: pending_for_def dropped_def
      biometric_storage_plugin_handle_method_call_def Let_def fl_method_call_respond_def
      secret_password_store_def secret_password_lookup_def secret_password_clear_def
      g_object_ref_def split: option.split)

lemma retained_complete:
  assumes "\<And>h. count_list (retained w) h = length (pending_for h w)"
  shows "count_list (retained (complete i failure w)) h =
         length (pending_for h (complete i failure w))"
proof (cases "i < length (pending w)")
  case False
  then show ?thesis using assms by (simp add: complete_idle)
next
  case True
  let ?h0 = "user_data (pending w ! i)"
  have "pending w ! i \<in> set (pending_for ?h0 w)"
    using True by (simp add: pending_for_def)
  then have "0 < length (pending_for ?h0 w)"
    by (cases "pending_for ?h0 w") auto
  then have "0 < count_list (retained w) ?h0"
    using assms by simp
  then have held: "?h0 \<in> set (retained w)"
    by (metis count_notin less_numeral_extra(3))
  from filter_without_nth [OF True, of "\<lambda>c. user_data c = h"]
  have "length (pending_for h (complete i failure w)) + (if ?h0 = h then 1 else 0) =
        length (pending_for h w)"
    by (simp add: pending_for_def complete_effect(2) [OF True])
  moreover have "count_list (retained (complete i failure w)) h =
      count_list (retained w) h - (if ?h0 = h then 1 else 0)"
    using held by (simp add: complete_effect(3) [OF True] count_list_remove1)
  ultimately show ?thesis
    using assms [of h] by (simp split: if_splits)
qed

lemma retained_run:
  assumes "undropped evs" and "\<And>h. count_list (retained w) h = length (pending_for h w)"
  shows "count_list (retained (run evs w)) h = length (pending_for h (run evs w))"
  using assms
proof (induction evs arbitrary: w h)
  case Nil
  then show ?case by simp
next
  case (Cons ev evs)
  show ?case
  proof (cases ev)
    case (MethodCall mc)
    with Cons.prems(1) have nd: "\<not> dropped mc" and rest: "undropped evs" by simp_all
    show ?thesis
      unfolding MethodCall run_Cons step.simps
      by (rule Cons.IH [OF rest]) (rule retained_call [OF Cons.prems(2) nd])
  next
    case (Completion i failure)
    with Cons.prems(1) have rest: "undropped evs" by simp
    show ?thesis
      unfolding Completion run_Cons step.simps
      by (rule Cons.IH [OF rest]) (rule retained_complete [OF Cons.prems(2)])
  qed
qed

lemma completions_without_pending:
  assumes "pending w = []"
  shows "run (map (case_prod Completion) cs) w = w"
  using assms by (induction cs) (simp_all add: complete_idle split_beta)

section \<open>The synchronous operations\<close>

text \<open>
  Claim C9. \<^verbatim>\<open>canAuthenticate\<close> always responds synchronously with success of the fixed
  string \<^verbatim>\<open>ErrorHwUnavailable\<close>, whatever its arguments and whatever the state, and has
  no side effect: the state after the call is the state before it with that one response
  added.
\<close>

theorem canAuthenticate_fixed_response:
  assumes "call_name mc = ''canAuthenticate''"
  shows "biometric_storage_plugin_handle_method_call mc w =
           w\<lparr>responses := responses w @
              [(call_id mc, FlMethodSuccessResponse (FlString ''ErrorHwUnavailable''))]\<rparr>"
  using assms
  by (simp add: biometric_storage_plugin_handle_method_call_def fl_method_call_respond_def)

theorem canAuthenticate_fixed_response_witness:
  "biometric_storage_plugin_handle_method_call
     \<lparr>call_id = 3, call_name = ''canAuthenticate'', call_args = FlList [FlBool True]\<rparr>
     (idle\<lparr>retained := [1], warnings := [''earlier'']\<rparr>) =
   idle\<lparr>retained := [1], warnings := [''earlier''],
     responses := [(3, FlMethodSuccessResponse (FlString ''ErrorHwUnavailable''))]\<rparr>"
  using canAuthenticate_fixed_response
    [of "\<lparr>call_id = 3, call_name = ''canAuthenticate'', call_args = FlList [FlBool True]\<rparr>"
        "idle\<lparr>retained := [1], warnings := [''earlier'']\<rparr>"]
  by (simp add: idle_def)

text \<open>
  Claim C10. A call of \<^verbatim>\<open>canAuthenticate\<close>, of \<^verbatim>\<open>init\<close> (with any arguments) or of
  an unrecognised operation, that is, any call whose name is not \<^verbatim>\<open>write\<close>,
  \<^verbatim>\<open>read\<close> or \<^verbatim>\<open>delete\<close>, issues no backend call and leaves the stored secrets
  unchanged; its one response is sent at once and is a function of the method name and the
  arguments alone.
\<close>

theorem synchronous_operations_frame:
  assumes "call_name mc \<noteq> kMethodWrite"
    and "call_name mc \<noteq> kMethodRead"
    and "call_name mc \<noteq> kMethodDelete"
  shows "biometric_storage_plugin_handle_method_call mc w =
           w\<lparr>responses := responses w @
              [(call_id mc,
                if call_name mc = ''canAuthenticate''
                then FlMethodSuccessResponse (FlString ''ErrorHwUnavailable'')
                else if call_name mc = ''init'' then handleInit (call_args mc)
                else FlMethodNotImplementedResponse)]\<rparr>
       \<and> pending (biometric_storage_plugin_handle_method_call mc w) = pending w
       \<and> keyring (biometric_storage_plugin_handle_method_call mc w) = keyring w
       \<and> retained (biometric_storage_plugin_handle_method_call mc w) = retained w
       \<and> warnings (biometric_storage_plugin_handle_method_call mc w) = warnings w"
  using assms
  by (simp add: biometric_storage_plugin_handle_method_call_def fl_method_call_respond_def)

theorem synchronous_operations_frame_witness:
  "biometric_storage_plugin_handle_method_call
     \<lparr>call_id = 1, call_name = ''canAuthenticate'', call_args = FlNull\<rparr>
     (idle\<lparr>keyring := [''k'' \<mapsto> ''v'']\<rparr>) =
   idle\<lparr>keyring := [''k'' \<mapsto> ''v''],
     responses := [(1, FlMethodSuccessResponse (FlString ''ErrorHwUnavailable''))]\<rparr>
   \<and> biometric_storage_plugin_handle_method_call
     \<lparr>call_id = 2, call_name = ''init'', call_args = FlNull\<rparr>
     (idle\<lparr>keyring := [''k'' \<mapsto> ''v'']\<rparr>) =
   idle\<lparr>keyring := [''k'' \<mapsto> ''v''],
     responses := [(2, FlMethodErrorResponse ''Bad Arguments''
                         ''Argument map missing or malformed'' None)]\<rparr>
   \<and> biometric_storage_plugin_handle_method_call
     \<lparr>call_id = 3, call_name = ''readAll'', call_args = vault1\<rparr>
     (idle\<lparr>keyring := [''k'' \<mapsto> ''v'']\<rparr>) =
   idle\<lparr>keyring := [''k'' \<mapsto> ''v''],
     responses := [(3, FlMethodNotImplementedResponse)]\<rparr>"
  using
    synchronous_operations_frame
      [of "\<lparr>call_id = 1, call_name = ''canAuthenticate'', call_args = FlNull\<rparr>"
          "idle\<lparr>keyring := [''k'' \<mapsto> ''v'']\<rparr>"]
    synchronous_operations_frame
      [of "\<lparr>call_id = 2, call_name = ''init'', call_args = FlNull\<rparr>"
          "idle\<lparr>keyring := [''k'' \<mapsto> ''v'']\<rparr>"]
    synchronous_operations_frame
      [of "\<lparr>call_id = 3, call_name = ''readAll'', call_args = vault1\<rparr>"
          "idle\<lparr>keyring := [''k'' \<mapsto> ''v'']\<rparr>"]
  by (simp add: idle_def kMethodWrite_def kMethodRead_def kMethodDelete_def handleInit_def
      fl_value_lookup_string_def fl_value_get_type_def kBadArgumentsError_def)

subsection \<open>init\<close>

lemma fl_value_get_type_map_iff:
  "fl_value_get_type v = FL_VALUE_TYPE_MAP \<longleftrightarrow> (\<exists>kvs. v = Some (FlMap kvs))"
  by (simp add: fl_value_get_type_def split: option.split FlValue.split)

lemma handleInit_malformed:
  assumes "\<forall>kvs. fl_value_lookup_string (Some args) ''options'' \<noteq> Some (FlMap kvs)"
  shows "handleInit args =
    FlMethodErrorResponse ''Bad Arguments'' ''Argument map missing or malformed'' None"
  using assms
  by (simp add: handleInit_def Let_def fl_value_get_type_map_iff kBadArgumentsError_def)

lemma handleInit_options:
  assumes "fl_value_lookup_string (Some args) ''options'' = Some (FlMap opts)"
  shows "handleInit args =
    (if fl_value_get_bool (fl_value_lookup_string (Some (FlMap opts)) ''authenticationRequired'')
     then FlMethodErrorResponse ''Bad Arguments''
            ''Linux plugin only supports non-authenticated secure storage'' None
     else FlMethodSuccessResponse (FlBool True))"
  using assms
  by (simp add: handleInit_def Let_def fl_value_get_type_map_iff kBadArgumentsError_def)

text \<open>
  Claim C3. \<^verbatim>\<open>init\<close> whose \<^verbatim>\<open>options\<close> map has \<^verbatim>\<open>authenticationRequired\<close> true
  responds with a Bad Arguments error saying that only non-authenticated storage is
  supported; with \<^verbatim>\<open>authenticationRequired\<close> false or absent it responds success(true);
  with \<^verbatim>\<open>options\<close> absent or not a map it responds with a Bad Arguments error.
\<close>

theorem init_guard:
  assumes "call_name mc = ''init''"
  shows "(fl_value_lookup_string (Some (call_args mc)) ''options'' = Some (FlMap opts)
          \<and> fl_value_lookup_string (Some (FlMap opts)) ''authenticationRequired'' =
              Some (FlBool True)
          \<longrightarrow> biometric_storage_plugin_handle_method_call mc w =
                fl_method_call_respond (call_id mc)
                  (FlMethodErrorResponse ''Bad Arguments''
                     ''Linux plugin only supports non-authenticated secure storage'' None) w)
       \<and> (fl_value_lookup_string (Some (call_args mc)) ''options'' = Some (FlMap opts)
          \<and> (fl_value_lookup_string (Some (FlMap opts)) ''authenticationRequired'' =
                Some (FlBool False)
             \<or> fl_value_lookup_string (Some (FlMap opts)) ''authenticationRequired'' = None)
          \<longrightarrow> biometric_storage_plugin_handle_method_call mc w =
                fl_method_call_respond (call_id mc) (FlMethodSuccessResponse (FlBool True)) w)
       \<and> ((\<forall>kvs. fl_value_lookup_string (Some (call_args mc)) ''options'' \<noteq> Some (FlMap kvs))
          \<longrightarrow> biometric_storage_plugin_handle_method_call mc w =
                fl_method_call_respond (call_id mc)
                  (FlMethodErrorResponse ''Bad Arguments''
                     ''Argument map missing or malformed'' None) w)"
proof -
  have call: "biometric_storage_plugin_handle_method_call mc w =
      fl_method_call_respond (call_id mc) (handleInit (call_args mc)) w"
    using assms by (simp add: biometric_storage_plugin_handle_method_call_def)
  show ?thesis
    unfolding call
    by (auto simp: handleInit_malformed handleInit_options fl_value_get_bool_def)
qed

theorem init_guard_witness:
  "responses (biometric_storage_plugin_handle_method_call
     \<lparr>call_id = 1, call_name = ''init'',
      call_args = FlMap [(FlString ''options'',
                          FlMap [(FlString ''authenticationRequired'', FlBool True)])]\<rparr> idle) =
     [(1, FlMethodErrorResponse ''Bad Arguments''
            ''Linux plugin only supports non-authenticated secure storage'' None)]
   \<and> responses (biometric_storage_plugin_handle_method_call
     \<lparr>call_id = 2, call_name = ''init'',
      call_args = FlMap [(FlString ''options'',
                          FlMap [(FlString ''authenticationRequired'', FlBool False)])]\<rparr> idle) =
     [(2, FlMethodSuccessResponse (FlBool True))]
   \<and> responses (biometric_storage_plugin_handle_method_call
     \<lparr>call_id = 3, call_name = ''init'',
      call_args = FlMap [(FlString ''options'', FlMap [])]\<rparr> idle) =
     [(3, FlMethodSuccessResponse (FlBool True))]
   \<and> responses (biometric_storage_plugin_handle_method_call
     \<lparr>call_id = 4, call_name = ''init'', call_args = FlMap []\<rparr> idle) =
     [(4, FlMethodErrorResponse ''Bad Arguments'' ''Argument map missing or malformed'' None)]
   \<and> responses (biometric_storage_plugin_handle_method_call
     \<lparr>call_id = 5, call_name = ''init'',
      call_args = FlMap [(FlString ''options'', FlString ''none'')]\<rparr> idle) =
     [(5, FlMethodErrorResponse ''Bad Arguments'' ''Argument map missing or malformed'' None)]"
  using
    init_guard [of "\<lparr>call_id = 1, call_name = ''init'',
      call_args = FlMap [(FlString ''options'',
                          FlMap [(FlString ''authenticationRequired'', FlBool True)])]\<rparr>"
      "[(FlString ''authenticationRequired'', FlBool True)]" idle]
    init_guard [of "\<lparr>call_id = 2, call_name = ''init'',
      call_args = FlMap [(FlString ''options'',
                          FlMap [(FlString ''authenticationRequired'', FlBool False)])]\<rparr>"
      "[(FlString ''authenticationRequired'', FlBool False)]" idle]
    init_guard [of "\<lparr>call_id = 3, call_name = ''init'',
      call_args = FlMap [(FlString ''options'', FlMap [])]\<rparr>" "[]" idle]
    init_guard [of "\<lparr>call_id = 4, call_name = ''init'', call_args = FlMap []\<rparr>" "[]" idle]
    init_guard [of "\<lparr>call_id = 5, call_name = ''init'',
      call_args = FlMap [(FlString ''options'', FlString ''none'')]\<rparr>" "[]" idle]
  by (simp add: fl_value_lookup_string_def fl_method_call_respond_def idle_def)

section \<open>Name resolution\<close>

text \<open>
  Claim C4. For every short name \<open>n\<close> given as the string argument \<^verbatim>\<open>name\<close> of
  write, read or delete, the identifier used for the backend call is the prefix
  \<^verbatim>\<open>design.codeux.authpass\<close>, a dot, and \<open>n\<close>; it depends on \<open>n\<close> only, so the
  same \<open>n\<close> gives the same identifier in every operation.
\<close>

theorem name_resolution:
  assumes "fl_value_lookup_string (Some (call_args mc)) ''name'' = Some (FlString n)"
  shows "METHOD_PARAM_NAME (call_args mc) = ''design.codeux.authpass'' @ ''.'' @ n
       \<and> (call_name mc = ''write''
            \<and> fl_value_lookup_string (Some (call_args mc)) ''content'' = Some (FlString c)
          \<longrightarrow> pending (biometric_storage_plugin_handle_method_call mc w) =
                pending w @
                [\<lparr>request = SecretStore (''design.codeux.authpass'' @ ''.'' @ n) c
                              (''design.codeux.authpass'' @ ''.'' @ n),
                  ready = CbPasswordStored, user_data = call_id mc\<rparr>])
       \<and> (call_name mc = ''read''
          \<longrightarrow> pending (biometric_storage_plugin_handle_method_call mc w) =
                pending w @
                [\<lparr>request = SecretLookup (''design.codeux.authpass'' @ ''.'' @ n),
                  ready = CbPasswordLookup, user_data = call_id mc\<rparr>])
       \<and> (call_name mc = ''delete''
          \<longrightarrow> pending (biometric_storage_plugin_handle_method_call mc w) =
                pending w @
                [\<lparr>request = SecretClear (''design.codeux.authpass'' @ ''.'' @ n),
                  ready = CbPasswordCleared, user_data = call_id mc\<rparr>])"
  using METHOD_PARAM_NAME_string [OF assms] pending_write [OF _ assms, of c w]
    pending_read [OF _ assms, of w] pending_delete [OF _ assms, of w]
  by blast

theorem name_resolution_witness:
  "METHOD_PARAM_NAME vault1_secret = ''design.codeux.authpass.vault1''
   \<and> pending (biometric_storage_plugin_handle_method_call
        \<lparr>call_id = 1, call_name = ''write'', call_args = vault1_secret\<rparr> idle) =
     [\<lparr>request = SecretStore ''design.codeux.authpass.vault1'' ''secret-xyz''
                   ''design.codeux.authpass.vault1'',
       ready = CbPasswordStored, user_data = 1\<rparr>]
   \<and> pending (biometric_storage_plugin_handle_method_call
        \<lparr>call_id = 2, call_name = ''read'', call_args = vault1\<rparr> idle) =
     [\<lparr>request = SecretLookup ''design.codeux.authpass.vault1'',
       ready = CbPasswordLookup, user_data = 2\<rparr>]
   \<and> pending (biometric_storage_plugin_handle_method_call
        \<lparr>call_id = 3, call_name = ''delete'', call_args = vault1\<rparr> idle) =
     [\<lparr>request = SecretClear ''design.codeux.authpass.vault1'',
       ready = CbPasswordCleared, user_data = 3\<rparr>]"
  using
    name_resolution [of "\<lparr>call_id = 1, call_name = ''write'', call_args = vault1_secret\<rparr>"
       "''vault1''" "''secret-xyz''" idle]
    name_resolution [of "\<lparr>call_id = 2, call_name = ''read'', call_args = vault1\<rparr>"
       "''vault1''" "''x''" idle]
    name_resolution [of "\<lparr>call_id = 3, call_name = ''delete'', call_args = vault1\<rparr>"
       "''vault1''" "''x''" idle]
  by (simp add: fl_value_lookup_string_def idle_def vault1_def vault1_secret_def)

section \<open>The asynchronous operations\<close>

subsection \<open>Backend failures\<close>

text \<open>
  Claim C8. When the backend reports a failure for a store, a lookup or a clear, the
  response is an error of the category \<^verbatim>\<open>Security Access Error\<close>; its message is the
  context message, the backend's message, its numeric code and its domain, in the format
  \<^verbatim>\<open>%s: %s (%d) (%s)\<close>; its details are the map with \<^verbatim>\<open>domain\<close> (string),
  \<^verbatim>\<open>code\<close> (integer) and \<^verbatim>\<open>message\<close> (string); and the same message text is logged
  as a warning.
\<close>

theorem backend_failure_translation:
  assumes "res_error r = Some e"
  shows "(let text = (\<lambda>ctx. ctx @ '': '' @ message e @ '' ('' @ fmt_d (code e) @ '') ('' @
                             domain e @ '')'');
              details = FlMap [(FlString ''domain'', FlString (domain e)),
                               (FlString ''code'', FlInt (scast (code e))),
                               (FlString ''message'', FlString (message e))];
              failed = (\<lambda>ctx. FlMethodErrorResponse ''Security Access Error'' (text ctx)
                                 (Some details))
          in responses (on_password_stored r h w) =
               responses w @ [(h, failed ''Failed to store secret'')]
           \<and> warnings (on_password_stored r h w) =
               warnings w @ [text ''Failed to store secret'']
           \<and> responses (on_password_lookup r h w) =
               responses w @ [(h, failed ''Failed to lookup secret'')]
           \<and> warnings (on_password_lookup r h w) =
               warnings w @ [text ''Failed to lookup secret'']
           \<and> responses (on_password_cleared r h w) =
               responses w @ [(h, failed ''Failed to delete secret'')]
           \<and> warnings (on_password_cleared r h w) =
               warnings w @ [text ''Failed to delete secret''])"
  using assms
  by (simp add: Let_def on_password_stored_def on_password_lookup_def on_password_cleared_def
      secret_password_store_finish_def secret_password_lookup_finish_def
      secret_password_clear_finish_def handle_error_eq g_object_unref_def
      fl_method_call_respond_def)

theorem backend_failure_translation_witness:
  "responses (on_password_stored
      \<lparr>res_error = Some keyring_locked, res_password = None, res_removed = False\<rparr> 4 idle) =
     [(4, FlMethodErrorResponse ''Security Access Error''
            ''Failed to store secret: locked (2) (secret-error)''
            (Some (FlMap [(FlString ''domain'', FlString ''secret-error''),
                          (FlString ''code'', FlInt 2),
                          (FlString ''message'', FlString ''locked'')])))]
   \<and> warnings (on_password_stored
      \<lparr>res_error = Some keyring_locked, res_password = None, res_removed = False\<rparr> 4 idle) =
     [''Failed to store secret: locked (2) (secret-error)'']
   \<and> responses (on_password_lookup
      \<lparr>res_error = Some service_gone, res_password = None, res_removed = False\<rparr> 5 idle) =
     [(5, FlMethodErrorResponse ''Security Access Error''
            ''Failed to lookup secret: gone (-1) (g-io-error-quark)''
            (Some (FlMap [(FlString ''domain'', FlString ''g-io-error-quark''),
                          (FlString ''code'', FlInt (- 1)),
                          (FlString ''message'', FlString ''gone'')])))]
   \<and> warnings (on_password_cleared
      \<lparr>res_error = Some service_gone, res_password = None, res_removed = False\<rparr> 6 idle) =
     [''Failed to delete secret: gone (-1) (g-io-error-quark)'']"
  using
    backend_failure_translation
      [of "\<lparr>res_error = Some keyring_locked, res_password = None, res_removed = False\<rparr>"
          keyring_locked 4 idle]
    backend_failure_translation
      [of "\<lparr>res_error = Some service_gone, res_password = None, res_removed = False\<rparr>"
          service_gone 5 idle]
    backend_failure_translation
      [of "\<lparr>res_error = Some service_gone, res_password = None, res_removed = False\<rparr>"
          service_gone 6 idle]
  by (simp add: Let_def idle_def fmt_d_def decimal.simps keyring_locked_def service_gone_def)

subsection \<open>read and delete\<close>

text \<open>
  Claim C6. For every name whose entry is absent from the backend, a read of that name
  whose lookup completes without error responds success(null): a success response that
  carries null, not an error response.
\<close>

theorem read_absent_is_null:
  assumes "call_name mc = ''read''"
    and "fl_value_lookup_string (Some (call_args mc)) ''name'' = Some (FlString n)"
    and "keyring w (''design.codeux.authpass'' @ ''.'' @ n) = None"
  shows "responses (complete (length (pending w)) None
                      (biometric_storage_plugin_handle_method_call mc w)) =
         responses w @ [(call_id mc, FlMethodSuccessResponse FlNull)]"
proof -
  define ident where "ident = ''design.codeux.authpass'' @ ''.'' @ n"
  define w1 where "w1 = biometric_storage_plugin_handle_method_call mc w"
  have p: "pending w1 =
      pending w @ [\<lparr>request = SecretLookup ident, ready = CbPasswordLookup,
                    user_data = call_id mc\<rparr>]"
    unfolding w1_def ident_def using assms(1,2) by (rule pending_read)
  have f: "keyring w1 = keyring w" "responses w1 = responses w"
    unfolding w1_def using frame_read [OF assms(1)] by simp_all
  have "keyring w ident = None"
    using assms(3) by (simp add: ident_def)
  then show ?thesis
    unfolding w1_def [symmetric] complete_last [OF p]
    by (simp add: f secret_service_def run_callback_def on_password_lookup_def
        secret_password_lookup_finish_def g_warning_def g_object_unref_def
        fl_method_call_respond_def)
qed

theorem read_absent_is_null_witness:
  "responses (complete 0 None
     (biometric_storage_plugin_handle_method_call
        \<lparr>call_id = 7, call_name = ''read'', call_args = vault1\<rparr>
        (idle\<lparr>keyring := [''design.codeux.authpass.other'' \<mapsto> ''s'']\<rparr>))) =
   [(7, FlMethodSuccessResponse FlNull)]"
  using read_absent_is_null
    [of "\<lparr>call_id = 7, call_name = ''read'', call_args = vault1\<rparr>" "''vault1''"
        "idle\<lparr>keyring := [''design.codeux.authpass.other'' \<mapsto> ''s'']\<rparr>"]
  by (simp add: fl_value_lookup_string_def idle_def vault1_def)

text \<open>
  Claim C7. A delete whose backend clear completes without error responds success(b),
  where b tells whether an entry existed: true when the name had an entry, false when it
  had none, and never an error. Afterwards the name has no entry.
\<close>

theorem delete_reports_existence:
  assumes "call_name mc = ''delete''"
    and "fl_value_lookup_string (Some (call_args mc)) ''name'' = Some (FlString n)"
  shows "responses (complete (length (pending w)) None
                      (biometric_storage_plugin_handle_method_call mc w)) =
         responses w @
         [(call_id mc, FlMethodSuccessResponse
             (FlBool (keyring w (''design.codeux.authpass'' @ ''.'' @ n) \<noteq> None)))]
       \<and> keyring (complete (length (pending w)) None
                      (biometric_storage_plugin_handle_method_call mc w)) =
         (keyring w)(''design.codeux.authpass'' @ ''.'' @ n := None)"
proof -
  define ident where "ident = ''design.codeux.authpass'' @ ''.'' @ n"
  define w1 where "w1 = biometric_storage_plugin_handle_method_call mc w"
  have p: "pending w1 =
      pending w @ [\<lparr>request = SecretClear ident, ready = CbPasswordCleared,
                    user_data = call_id mc\<rparr>]"
    unfolding w1_def ident_def using assms by (rule pending_delete)
  have f: "keyring w1 = keyring w" "responses w1 = responses w"
    unfolding w1_def using frame_delete [OF assms(1)] by simp_all
  have "responses (complete (length (pending w)) None w1) =
          responses w @ [(call_id mc, FlMethodSuccessResponse (FlBool (keyring w ident \<noteq> None)))]
      \<and> keyring (complete (length (pending w)) None w1) = (keyring w)(ident := None)"
    unfolding complete_last [OF p]
    by (simp add: f secret_service_def run_callback_def on_password_cleared_def
        secret_password_clear_finish_def g_object_unref_def fl_method_call_respond_def)
  then show ?thesis
    unfolding w1_def ident_def .
qed

theorem delete_reports_existence_witness:
  "responses (complete 0 None
     (biometric_storage_plugin_handle_method_call
        \<lparr>call_id = 8, call_name = ''delete'', call_args = vault1\<rparr>
        (idle\<lparr>keyring := [''design.codeux.authpass.vault1'' \<mapsto> ''secret-xyz'']\<rparr>))) =
   [(8, FlMethodSuccessResponse (FlBool True))]
   \<and> responses (complete 0 None
     (biometric_storage_plugin_handle_method_call
        \<lparr>call_id = 9, call_name = ''delete'', call_args = vault1\<rparr> idle)) =
   [(9, FlMethodSuccessResponse (FlBool False))]"
  using
    delete_reports_existence
      [of "\<lparr>call_id = 8, call_name = ''delete'', call_args = vault1\<rparr>" "''vault1''"
          "idle\<lparr>keyring := [''design.codeux.authpass.vault1'' \<mapsto> ''secret-xyz'']\<rparr>"]
    delete_reports_existence
      [of "\<lparr>call_id = 9, call_name = ''delete'', call_args = vault1\<rparr>" "''vault1''" idle]
  by (simp add: fl_value_lookup_string_def idle_def vault1_def)

subsection \<open>write, then read\<close>

text \<open>
  A store that is answered with success(true) did not fail.
\<close>

lemma stored_response:
  assumes "responses (on_password_stored (fst (secret_service rq failure kr)) h w) =
     responses w @ [(h, FlMethodSuccessResponse (FlBool True))]"
  shows "failure = None"
  using assms
  by (cases failure)
     (simp_all add: secret_service_def on_password_stored_def secret_password_store_finish_def
        handle_error_eq g_object_unref_def fl_method_call_respond_def)

lemma after_write_vault1:
  "complete 0 None (biometric_storage_plugin_handle_method_call
      \<lparr>call_id = 10, call_name = ''write'', call_args = vault1_secret\<rparr> idle) =
   idle\<lparr>responses := [(10, FlMethodSuccessResponse (FlBool True))],
        keyring := [''design.codeux.authpass.vault1'' \<mapsto> ''secret-xyz'']\<rparr>"
  by (simp add: plugin_eval vault1_secret_def)

text \<open>
  Claim C5, amended. For every name and content, a write(name, content) that responds
  success(true), followed by a read(name) whose backend lookup completes without error,
  with no write or delete on that name in between (the entry of the name is the same when
  the read is made as it was when the write completed), responds success(content).
\<close>

theorem write_then_read_roundtrip:
  assumes "call_name wr = ''write''"
    and "fl_value_lookup_string (Some (call_args wr)) ''name'' = Some (FlString n)"
    and "fl_value_lookup_string (Some (call_args wr)) ''content'' = Some (FlString c)"
    and "w1 = complete (length (pending w)) failure (biometric_storage_plugin_handle_method_call wr w)"
    and "responses w1 = responses w @ [(call_id wr, FlMethodSuccessResponse (FlBool True))]"
    and "keyring w2 (''design.codeux.authpass'' @ ''.'' @ n) =
         keyring w1 (''design.codeux.authpass'' @ ''.'' @ n)"
    and "call_name rd = ''read''"
    and "fl_value_lookup_string (Some (call_args rd)) ''name'' = Some (FlString n)"
  shows "responses (complete (length (pending w2)) None
                      (biometric_storage_plugin_handle_method_call rd w2)) =
         responses w2 @ [(call_id rd, FlMethodSuccessResponse (FlString c))]"
proof -
  define ident where "ident = ''design.codeux.authpass'' @ ''.'' @ n"
  define wa where "wa = biometric_storage_plugin_handle_method_call wr w"
  define res where "res = secret_service (SecretStore ident c ident) failure (keyring w)"
  have pw: "pending wa =
      pending w @ [\<lparr>request = SecretStore ident c ident, ready = CbPasswordStored,
                    user_data = call_id wr\<rparr>]"
    unfolding wa_def ident_def using assms(1-3) by (rule pending_write)
  have fw: "keyring wa = keyring w" "responses wa = responses w"
    unfolding wa_def using frame_write [OF assms(1)] by simp_all
  have w1: "w1 = on_password_stored (fst res) (call_id wr)
      (wa\<lparr>pending := pending w, keyring := snd res\<rparr>)"
    unfolding assms(4) wa_def [symmetric] complete_last [OF pw] res_def
    by (simp add: run_callback_def fw)
  have "responses (on_password_stored (fst res) (call_id wr)
          (wa\<lparr>pending := pending w, keyring := snd res\<rparr>)) =
        responses (wa\<lparr>pending := pending w, keyring := snd res\<rparr>) @
          [(call_id wr, FlMethodSuccessResponse (FlBool True))]"
    using assms(5) unfolding w1 by (simp add: fw)
  then have "failure = None"
    unfolding res_def by (rule stored_response)
  then have "keyring w1 ident = Some c"
    unfolding w1 res_def
    by (simp add: secret_service_def on_password_stored_def secret_password_store_finish_def
        g_object_unref_def fl_method_call_respond_def)
  with assms(6) have stored: "keyring w2 ident = Some c"
    by (simp add: ident_def)
  define wb where "wb = biometric_storage_plugin_handle_method_call rd w2"
  have pr: "pending wb =
      pending w2 @ [\<lparr>request = SecretLookup ident, ready = CbPasswordLookup,
                     user_data = call_id rd\<rparr>]"
    unfolding wb_def ident_def using assms(7,8) by (rule pending_read)
  have fr: "keyring wb = keyring w2" "responses wb = responses w2"
    unfolding wb_def using frame_read [OF assms(7)] by simp_all
  show ?thesis
    unfolding wb_def [symmetric] complete_last [OF pr]
    using stored
    by (simp add: fr secret_service_def run_callback_def
        on_password_lookup_def secret_password_lookup_finish_def g_object_unref_def
        fl_method_call_respond_def)
qed

theorem write_then_read_roundtrip_witness:
  "responses (run [MethodCall \<lparr>call_id = 10, call_name = ''write'', call_args = vault1_secret\<rparr>,
                   Completion 0 None,
                   MethodCall \<lparr>call_id = 11, call_name = ''read'', call_args = vault1\<rparr>,
                   Completion 0 None] idle) =
     [(10, FlMethodSuccessResponse (FlBool True)),
      (11, FlMethodSuccessResponse (FlString ''secret-xyz''))]"
proof -
  define w1 where "w1 = complete 0 None (biometric_storage_plugin_handle_method_call
      \<lparr>call_id = 10, call_name = ''write'', call_args = vault1_secret\<rparr> idle)"
  have e: "w1 = idle\<lparr>responses := [(10, FlMethodSuccessResponse (FlBool True))],
        keyring := [''design.codeux.authpass.vault1'' \<mapsto> ''secret-xyz'']\<rparr>"
    unfolding w1_def by (rule after_write_vault1)
  have p: "length (pending w1) = 0"
    and r: "responses w1 = [(10, FlMethodSuccessResponse (FlBool True))]"
    by (simp_all add: e idle_def)
  have "responses (complete (length (pending w1)) None
          (biometric_storage_plugin_handle_method_call
             \<lparr>call_id = 11, call_name = ''read'', call_args = vault1\<rparr> w1)) =
        responses w1 @
          [(call_id \<lparr>call_id = 11, call_name = ''read'', call_args = vault1\<rparr>,
            FlMethodSuccessResponse (FlString ''secret-xyz''))]"
  proof (rule write_then_read_roundtrip
      [where wr = "\<lparr>call_id = 10, call_name = ''write'', call_args = vault1_secret\<rparr>"
         and n = "''vault1''" and w = idle and failure = None and ?w1.0 = w1])
    show "w1 = complete (length (pending idle)) None
        (biometric_storage_plugin_handle_method_call
           \<lparr>call_id = 10, call_name = ''write'', call_args = vault1_secret\<rparr> idle)"
      by (simp add: w1_def idle_def)
    show "responses w1 = responses idle @
        [(call_id \<lparr>call_id = 10, call_name = ''write'', call_args = vault1_secret\<rparr>,
          FlMethodSuccessResponse (FlBool True))]"
      by (simp add: r idle_def)
  qed (simp_all add: fl_value_lookup_string_def vault1_def vault1_secret_def)
  then have "responses (complete 0 None
          (biometric_storage_plugin_handle_method_call
             \<lparr>call_id = 11, call_name = ''read'', call_args = vault1\<rparr> w1)) =
        [(10, FlMethodSuccessResponse (FlBool True)),
         (11, FlMethodSuccessResponse (FlString ''secret-xyz''))]"
    by (simp add: p r)
  then show ?thesis
    by (simp add: w1_def)
qed

text \<open>
  Claim C5 as stated puts no condition on the read's own backend call. It fails when the
  lookup fails: the write of \<^verbatim>\<open>secret-xyz\<close> under \<^verbatim>\<open>vault1\<close> is answered with
  success(true), nothing happens in between, and the read is answered with a
  \<^verbatim>\<open>Security Access Error\<close>, as \<^verbatim>\<open>on_password_lookup\<close> does for every backend
  error.
\<close>

theorem read_failure_counterexample:
  "responses (run [MethodCall \<lparr>call_id = 10, call_name = ''write'', call_args = vault1_secret\<rparr>,
                   Completion 0 None] idle) =
     [(10, FlMethodSuccessResponse (FlBool True))]
   \<and> responses (run [MethodCall \<lparr>call_id = 10, call_name = ''write'', call_args = vault1_secret\<rparr>,
                     Completion 0 None,
                     MethodCall \<lparr>call_id = 11, call_name = ''read'', call_args = vault1\<rparr>,
                     Completion 0 (Some keyring_locked)] idle) =
     [(10, FlMethodSuccessResponse (FlBool True)),
      (11, FlMethodErrorResponse ''Security Access Error''
            ''Failed to lookup secret: locked (2) (secret-error)''
            (Some (FlMap [(FlString ''domain'', FlString ''secret-error''),
                          (FlString ''code'', FlInt 2),
                          (FlString ''message'', FlString ''locked'')])))]
   \<and> responses (run [MethodCall \<lparr>call_id = 10, call_name = ''write'', call_args = vault1_secret\<rparr>,
                     Completion 0 None,
                     MethodCall \<lparr>call_id = 11, call_name = ''read'', call_args = vault1\<rparr>,
                     Completion 0 (Some keyring_locked)] idle) \<noteq>
     [(10, FlMethodSuccessResponse (FlBool True)),
      (11, FlMethodSuccessResponse (FlString ''secret-xyz''))]"
proof -
  define w1 where "w1 = idle\<lparr>responses := [(10, FlMethodSuccessResponse (FlBool True))],
        keyring := [''design.codeux.authpass.vault1'' \<mapsto> ''secret-xyz'']\<rparr>"
  have a: "complete 0 None (biometric_storage_plugin_handle_method_call
      \<lparr>call_id = 10, call_name = ''write'', call_args = vault1_secret\<rparr> idle) = w1"
    unfolding w1_def by (rule after_write_vault1)
  have b: "responses (complete 0 (Some keyring_locked)
          (biometric_storage_plugin_handle_method_call
             \<lparr>call_id = 11, call_name = ''read'', call_args = vault1\<rparr> w1)) =
        [(10, FlMethodSuccessResponse (FlBool True)),
         (11, FlMethodErrorResponse ''Security Access Error''
            ''Failed to lookup secret: locked (2) (secret-error)''
            (Some (FlMap [(FlString ''domain'', FlString ''secret-error''),
                          (FlString ''code'', FlInt 2),
                          (FlString ''message'', FlString ''locked'')])))]"
    unfolding w1_def
    by (simp add: plugin_eval vault1_def keyring_locked_def fmt_d_def decimal.simps)
  have c: "responses w1 = [(10, FlMethodSuccessResponse (FlBool True))]"
    by (simp add: w1_def idle_def)
  show ?thesis
    by (simp add: a b c)
qed

text \<open>
  The scenario of the specification: write, read, delete, read, delete of \<^verbatim>\<open>vault1\<close>,
  each completed without error.
\<close>

lemma scenario:
  "responses (run [MethodCall \<lparr>call_id = 10, call_name = ''write'', call_args = vault1_secret\<rparr>,
                   Completion 0 None,
                   MethodCall \<lparr>call_id = 11, call_name = ''read'', call_args = vault1\<rparr>,
                   Completion 0 None,
                   MethodCall \<lparr>call_id = 12, call_name = ''delete'', call_args = vault1\<rparr>,
                   Completion 0 None,
                   MethodCall \<lparr>call_id = 13, call_name = ''read'', call_args = vault1\<rparr>,
                   Completion 0 None,
                   MethodCall \<lparr>call_id = 14, call_name = ''delete'', call_args = vault1\<rparr>,
                   Completion 0 None] idle) =
     [(10, FlMethodSuccessResponse (FlBool True)),
      (11, FlMethodSuccessResponse (FlString ''secret-xyz'')),
      (12, FlMethodSuccessResponse (FlBool True)),
      (13, FlMethodSuccessResponse FlNull),
      (14, FlMethodSuccessResponse (FlBool False))]"
  by (simp add: plugin_eval vault1_secret_def vault1_def)

section \<open>Calls with missing arguments\<close>

text \<open>
  Only \<^verbatim>\<open>handleInit\<close> checks an argument. The branches of write, read and delete read
  \<^verbatim>\<open>name\<close> and \<^verbatim>\<open>content\<close> without any check, so a missing or non-string
  argument reaches \<^verbatim>\<open>g_strdup_printf\<close> and libsecret as a null pointer.

  Claim C1 says that every inbound call gets exactly one response, and that no handle is
  left without one. For every call except a write without string content this holds
  (lemmas \<open>one_response_or_one_pending\<close>, \<open>complete_effect\<close> and \<open>retained_run\<close>
  above). A write whose \<^verbatim>\<open>content\<close> is missing is the exception: the issuing path
  takes its reference and calls \<^verbatim>\<open>secret_password_store\<close> with a null password, the
  call is dropped, \<^verbatim>\<open>on_password_stored\<close> never runs, and whatever completes
  afterwards the handle has no response and its reference is never released.
\<close>

theorem write_without_content_never_answered:
  "responses (run (MethodCall \<lparr>call_id = 10, call_name = ''write'', call_args = vault1\<rparr> #
                   map (case_prod Completion) cs) idle) = []
   \<and> pending (run (MethodCall \<lparr>call_id = 10, call_name = ''write'', call_args = vault1\<rparr> #
                   map (case_prod Completion) cs) idle) = []
   \<and> retained (run (MethodCall \<lparr>call_id = 10, call_name = ''write'', call_args = vault1\<rparr> #
                   map (case_prod Completion) cs) idle) = [10]"
proof -
  have "biometric_storage_plugin_handle_method_call
          \<lparr>call_id = 10, call_name = ''write'', call_args = vault1\<rparr> idle =
        idle\<lparr>retained := [10]\<rparr>"
    by (simp add: plugin_eval vault1_def)
  moreover have "pending (idle\<lparr>retained := [10]\<rparr>) = []"
    by (simp add: idle_def)
  ultimately have "run (MethodCall \<lparr>call_id = 10, call_name = ''write'', call_args = vault1\<rparr> #
      map (case_prod Completion) cs) idle = idle\<lparr>retained := [10]\<rparr>"
    by (simp add: completions_without_pending)
  then show ?thesis
    by (simp add: idle_def)
qed

text \<open>
  Claim C2 says that a call with a missing or malformed required argument fails
  synchronously with Bad Arguments and issues no backend call. For read, delete and write
  without a string \<^verbatim>\<open>name\<close> the code sends nothing synchronously and issues the
  backend call, for the identifier \<^verbatim>\<open>design.codeux.authpass.(null)\<close>; the read is then
  answered by the callback, here with success(null).
\<close>

theorem missing_name_not_rejected:
  "run [MethodCall \<lparr>call_id = 10, call_name = ''read'', call_args = FlMap []\<rparr>] idle =
     idle\<lparr>retained := [10],
          pending := [\<lparr>request = SecretLookup ''design.codeux.authpass.(null)'',
                       ready = CbPasswordLookup, user_data = 10\<rparr>]\<rparr>
   \<and> responses (run [MethodCall \<lparr>call_id = 10, call_name = ''read'', call_args = FlMap []\<rparr>,
                     Completion 0 None] idle) =
     [(10, FlMethodSuccessResponse FlNull)]
   \<and> run [MethodCall \<lparr>call_id = 11, call_name = ''delete'', call_args = FlNull\<rparr>] idle =
     idle\<lparr>retained := [11],
          pending := [\<lparr>request = SecretClear ''design.codeux.authpass.(null)'',
                       ready = CbPasswordCleared, user_data = 11\<rparr>]\<rparr>
   \<and> run [MethodCall \<lparr>call_id = 12, call_name = ''write'',
                      call_args = FlMap [(FlString ''content'', FlString ''secret-xyz'')]\<rparr>] idle =
     idle\<lparr>retained := [12],
          pending := [\<lparr>request = SecretStore ''design.codeux.authpass.(null)'' ''secret-xyz''
                                   ''design.codeux.authpass.(null)'',
                       ready = CbPasswordStored, user_data = 12\<rparr>]\<rparr>"
  by (simp add: plugin_eval)

end
